theory Spec2Isabelle
  imports Complex_Main
begin

section \<open>Data model of the loan scoring service (src/main.py)\<close>

text \<open>
  Python \<open>float\<close> and \<open>int\<close> quantities that hold money, rates and ratios are
  modelled as \<^typ>\<open>real\<close>: the arithmetic is the exact arithmetic of the source
  expressions, without binary rounding, overflow to infinity or NaN. A statement that a
  call returns is therefore about exact arithmetic: a rate so small that \<open>1 + rate / 12\<close>
  rounds to 1, or so large that the power overflows, behaves differently in floating
  point and is outside the model. Quantities the
  source types as \<open>int\<close> and only adds or compares (ages, durations, head counts, the
  score) are \<^typ>\<open>int\<close>. A \<open>Literal[...]\<close> field is a datatype with one constructor
  per admitted literal. Python strings are byte lists; a character outside ASCII is
  written as its UTF-8 bytes.
\<close>

datatype property_type = Neuf | Ancien

datatype employment_status = Cdi | Cdd

datatype housing_status = Locataire | Proprietaire | Heberge_gratuit

record project_info =
  property_price :: real
  property_type :: property_type
  personal_contribution :: real
  loan_duration :: int

record employment_info =
  status :: employment_status
  net_monthly_income :: real
  years_experience :: real
  trial_period :: bool

record borrower_info =
  employment :: employment_info
  age :: int

record household_info =
  borrowers_count :: int
  main_borrower :: borrower_info
  co_borrower :: "borrower_info option"
  children :: int

record housing_info =
  current_status :: housing_status
  monthly_rent :: real
  current_mortgage :: real
  changing_main_residence :: bool

text \<open>
  \<open>consumer_loans\<close> is a \<open>list[dict]\<close>: the validation layer accepts any dictionary,
  so a value found under a key is any value a request body can carry. Only numbers
  (and booleans, which Python adds as 0 and 1) can be added to the running total.
\<close>

datatype py_value =
    PyNum real
  | PyBool bool
  | PyStr string
  | PyNone
  | PyList "py_value list"
  | PyDict "(string \<times> py_value) list"

type_synonym py_dict = "string \<rightharpoonup> py_value"

record financial_info =
  consumer_loans :: "py_dict list"
  rental_income :: real
  other_income :: real

record loan_application =
  project :: project_info
  household :: household_info
  housing :: housing_info
  financial :: financial_info

record scoring_result =
  application_id :: string
  feasibility_score :: int
  result_status :: string
  criteria_details :: "(string \<times> string) list"
  recommendations :: "string list"
  monthly_payment :: real
  total_budget :: real
  current_interest_rate :: real
  rate_source :: string
  rate_last_update :: string

text \<open>
  The module-level dictionary \<open>taux_storage\<close>. Every key is read defensively by the
  source (\<open>.get\<close> with a default, or inside \<open>try\<close>), so each may be absent.
\<close>

record taux_storage =
  date_maj :: "string option"
  taux :: "(string \<rightharpoonup> real) option"
  source :: "string option"

datatype py_error = KeyError | ZeroDivisionError | TypeError

subsection \<open>The field constraints of the request models\<close>








section \<open>Rendering numbers as text\<close>

text \<open>\<open>str(n)\<close> for a Python integer: decimal digits, a leading minus sign.\<close>

definition digit_char :: "nat \<Rightarrow> char" where
  "digit_char d = ''0123456789'' ! d"

function str_nat :: "nat \<Rightarrow> string" where
  "str_nat n = (if n < 10 then [digit_char n] else str_nat (n div 10) @ [digit_char (n mod 10)])"
  by pat_completeness auto
termination
  by (relation "measure (\<lambda>n. n)") auto

declare str_nat.simps [simp del]

definition str_int :: "int \<Rightarrow> string" where
  "str_int i = (if i < 0 then CHR ''-'' # str_nat (nat (- i)) else str_nat (nat i))"

text \<open>
  The format specifications \<open>.0f\<close>, \<open>,.0f\<close> and \<open>.1%\<close> round to the nearest
  value with the requested digits, a tie going to the even neighbour, and print the sign
  of the unrounded number.
\<close>

definition round_half_even :: "real \<Rightarrow> int" where
  "round_half_even x =
     (let f = \<lfloor>x\<rfloor>; d = x - of_int f
      in if d < 1 / 2 then f else if 1 / 2 < d then f + 1 else if even f then f else f + 1)"

definition sign_prefix :: "real \<Rightarrow> string" where
  "sign_prefix x = (if x < 0 then ''-'' else [])"

definition fmt_0f :: "real \<Rightarrow> string" where
  "fmt_0f x = sign_prefix x @ str_nat (nat (round_half_even \<bar>x\<bar>))"

function group_thousands :: "string \<Rightarrow> string" where
  "group_thousands ds =
     (if length ds \<le> 3 then ds
      else group_thousands (take (length ds - 3) ds) @ '','' @ drop (length ds - 3) ds)"
  by pat_completeness auto
termination
  by (relation "measure length") auto

declare group_thousands.simps [simp del]

definition fmt_comma_0f :: "real \<Rightarrow> string" where
  "fmt_comma_0f x = sign_prefix x @ group_thousands (str_nat (nat (round_half_even \<bar>x\<bar>)))"

definition fmt_pct1 :: "real \<Rightarrow> string" where
  "fmt_pct1 x =
     (let m = nat (round_half_even (\<bar>x * 100\<bar> * 10))
      in sign_prefix x @ str_nat (m div 10) @ ''.'' @ str_nat (m mod 10) @ ''%'')"

section \<open>TauxService\<close>

text \<open>The rate table the module starts with (and the one the refresh job installs).\<close>

definition default_taux :: "string \<rightharpoonup> real" where
  "default_taux =
     [''10'' \<mapsto> 0.0285, ''15'' \<mapsto> 0.0303, ''20'' \<mapsto> 0.0316, ''25'' \<mapsto> 0.0326,
      ''30'' \<mapsto> 0.0340]"

definition initial_taux_storage :: "string \<Rightarrow> taux_storage" where
  "initial_taux_storage now =
     \<lparr>date_maj = Some now, taux = Some default_taux, source = Some ''seloger.com''\<rparr>"

text \<open>
  The body of the \<open>try\<close> block of \<open>get_current_rate\<close>:
  \<open>taux_storage["taux"].get(str(duration), 0.035)\<close>. Subscripting a missing key raises
  \<open>KeyError\<close>; \<open>.get\<close> does not raise.
\<close>

definition taux_lookup :: "taux_storage \<Rightarrow> int \<Rightarrow> py_error + real" where
  "taux_lookup st duration =
     (case taux st of
        None \<Rightarrow> Inl KeyError
      | Some table \<Rightarrow>
          Inr (case table (str_int duration) of None \<Rightarrow> 0.035 | Some r \<Rightarrow> r))"

text \<open>The bare \<open>except:\<close> clause turns every exception of the body into 0.035.\<close>

definition get_current_rate :: "taux_storage \<Rightarrow> int \<Rightarrow> py_error + real" where
  "get_current_rate st duration =
     (case taux_lookup st duration of Inl e \<Rightarrow> Inr 0.035 | Inr r \<Rightarrow> Inr r)"

definition get_taux_info :: "taux_storage \<Rightarrow> taux_storage" where
  "get_taux_info st = st"

section \<open>LoanScoringService\<close>

definition calculate_notary_fees :: "real \<Rightarrow> property_type \<Rightarrow> real" where
  "calculate_notary_fees price ptype = (if ptype = Neuf then price * 0.03 else price * 0.08)"

definition get_current_interest_rate :: "taux_storage \<Rightarrow> int \<Rightarrow> py_error + real" where
  "get_current_interest_rate st duration = get_current_rate st duration"

text \<open>
  Division and \<open>**\<close> with an integer exponent, as Python evaluates them on numbers:
  a zero divisor, and zero raised to a negative power, raise \<open>ZeroDivisionError\<close>.
\<close>

definition py_div :: "real \<Rightarrow> real \<Rightarrow> py_error + real" where
  "py_div a b = (if b = 0 then Inl ZeroDivisionError else Inr (a / b))"

definition py_pow :: "real \<Rightarrow> int \<Rightarrow> py_error + real" where
  "py_pow x n =
     (if 0 \<le> n then Inr (x ^ nat n)
      else if x = 0 then Inl ZeroDivisionError
      else Inr (inverse (x ^ nat (- n))))"

definition calculate_monthly_payment ::
  "taux_storage \<Rightarrow> real \<Rightarrow> int \<Rightarrow> real option \<Rightarrow> py_error + real" where
  "calculate_monthly_payment st amount duration_years rate_arg =
     (case (case rate_arg of
              None \<Rightarrow> get_current_interest_rate st duration_years
            | Some r \<Rightarrow> Inr r) of
        Inl e \<Rightarrow> Inl e
      | Inr rate \<Rightarrow>
          (let monthly_rate = rate / 12;
               n_payments = duration_years * 12
           in if monthly_rate = 0 then py_div amount (of_int n_payments)
              else
                (case py_pow (1 + monthly_rate) n_payments of
                   Inl e \<Rightarrow> Inl e
                 | Inr p \<Rightarrow> py_div (amount * (monthly_rate * p)) (p - 1))))"

definition calculate_eligible_income :: "employment_info \<Rightarrow> real" where
  "calculate_eligible_income e =
     (let base_income = net_monthly_income e
      in case status e of
           Cdi \<Rightarrow> (if trial_period e then 0 else base_income)
         | Cdd \<Rightarrow> (if 3 \<le> years_experience e then base_income * 0.7 else 0))"

text \<open>
  \<open>loan.get('monthly_payment', 0)\<close> and \<open>charges += ...\<close>: the addition raises
  \<open>TypeError\<close> unless the value is a number; \<open>True\<close> and \<open>False\<close> add as 1 and 0.
\<close>

definition dict_get :: "py_dict \<Rightarrow> string \<Rightarrow> py_value \<Rightarrow> py_value" where
  "dict_get d k dflt = (case d k of None \<Rightarrow> dflt | Some v \<Rightarrow> v)"

definition add_value :: "real \<Rightarrow> py_value \<Rightarrow> py_error + real" where
  "add_value c v =
     (case v of
        PyNum x \<Rightarrow> Inr (c + x)
      | PyBool b \<Rightarrow> Inr (c + (if b then 1 else 0))
      | _ \<Rightarrow> Inl TypeError)"

fun add_loans :: "real \<Rightarrow> py_dict list \<Rightarrow> py_error + real" where
  "add_loans charges [] = Inr charges"
| "add_loans charges (loan # loans) =
     (case add_value charges (dict_get loan ''monthly_payment'' (PyNum 0)) of
        Inl e \<Rightarrow> Inl e
      | Inr charges' \<Rightarrow> add_loans charges' loans)"

definition calculate_current_charges :: "housing_info \<Rightarrow> financial_info \<Rightarrow> py_error + real" where
  "calculate_current_charges hs fin =
     (let charges = 0;
          charges =
            (if current_status hs = Locataire then charges + 0
             else if current_status hs = Proprietaire \<and> changing_main_residence hs
               then charges + current_mortgage hs
             else charges)
      in add_loans charges (consumer_loans fin))"

definition calculate_total_eligible_income :: "household_info \<Rightarrow> financial_info \<Rightarrow> real" where
  "calculate_total_eligible_income hh fin =
     (let main_income = calculate_eligible_income (employment (main_borrower hh));
          co_income =
            (case co_borrower hh of
               None \<Rightarrow> 0
             | Some b \<Rightarrow> calculate_eligible_income (employment b));
          rental_income_eligible = rental_income fin * 0.7
      in main_income + co_income + rental_income_eligible + other_income fin)"

subsection \<open>The texts of the verdicts and recommendations\<close>

definition check_mark :: string where
  "check_mark = [CHR 0xE2, CHR 0x9C, CHR 0x85]"

definition cross_mark :: string where
  "cross_mark = [CHR 0xE2, CHR 0x9D, CHR 0x8C]"

definition euro :: string where
  "euro = [CHR 0xE2, CHR 0x82, CHR 0xAC]"

definition e_acute :: string where
  "e_acute = [CHR 0xC3, CHR 0xA9]"

definition a_grave :: string where
  "a_grave = [CHR 0xC3, CHR 0xA0]"

definition e_circ :: string where
  "e_circ = [CHR 0xC3, CHR 0xAA]"

definition apostrophe :: string where
  "apostrophe = [CHR 0x27]"

definition rec_apport :: "real \<Rightarrow> string" where
  "rec_apport min_contribution =
     ''Augmentez votre apport '' @ a_grave @ '' '' @ fmt_0f min_contribution @ euro @ '' minimum''"

definition rec_revenus :: string where
  "rec_revenus =
     ''Obtenez un CDI ou justifiez 3 ans d'' @ apostrophe @ ''anciennet'' @ e_acute @ '' en CDD''"

definition rec_endettement :: string where
  "rec_endettement = ''R'' @ e_acute @ ''duisez vos charges ou augmentez vos revenus''"

definition rec_reste_vivre :: "int \<Rightarrow> string" where
  "rec_reste_vivre min_remaining =
     ''Assurez-vous d'' @ apostrophe @ ''avoir '' @ fmt_0f (of_int min_remaining) @ euro @
     '' de reste '' @ a_grave @ '' vivre''"

definition rec_age :: string where
  "rec_age = ''R'' @ e_acute @ ''duisez la dur'' @ e_acute @ ''e du pr'' @ e_circ @ ''t''"

subsection \<open>The five criteria\<close>

text \<open>
  \<open>evaluate_application\<close> keeps three local variables while it runs through the criteria:
  the dictionary \<open>criteria\<close> (in insertion order), the integer \<open>score\<close> and the list
  \<open>recommendations\<close>. Each \<open>if\<close>/\<open>else\<close> block of the source is one function on
  that triple, named after the key it writes.
\<close>

record tally =
  criteria :: "(string \<times> string) list"
  score :: int
  recs :: "string list"

definition passes :: "string \<Rightarrow> string \<Rightarrow> int \<Rightarrow> tally \<Rightarrow> tally" where
  "passes key verdict weight t =
     t\<lparr>criteria := criteria t @ [(key, verdict)], score := score t + weight\<rparr>"

definition fails :: "string \<Rightarrow> string \<Rightarrow> string \<Rightarrow> tally \<Rightarrow> tally" where
  "fails key verdict recommendation t =
     t\<lparr>criteria := criteria t @ [(key, verdict)], recs := recs t @ [recommendation]\<rparr>"

definition critere_apport :: "real \<Rightarrow> real \<Rightarrow> tally \<Rightarrow> tally" where
  "critere_apport contribution budget t =
     (let min_contribution = budget * 0.10
      in if min_contribution \<le> contribution
         then passes ''apport'' (check_mark @ '' Apport suffisant'') 30 t
         else fails ''apport''
                (cross_mark @ '' Apport insuffisant ('' @ fmt_0f min_contribution @ euro @
                 '' minimum)'')
                (rec_apport min_contribution) t)"

definition critere_revenus :: "real \<Rightarrow> real \<Rightarrow> tally \<Rightarrow> tally" where
  "critere_revenus main_income total_income t =
     (if 0 < main_income
      then passes ''revenus''
             (check_mark @ '' Revenus '' @ e_acute @ ''ligibles : '' @
              fmt_comma_0f total_income @ euro @ ''/mois'') 20 t
      else fails ''revenus'' (cross_mark @ '' Revenus non '' @ e_acute @ ''ligibles'')
             rec_revenus t)"

definition debt_ratio :: "real \<Rightarrow> real \<Rightarrow> real" where
  "debt_ratio total_charges total_income =
     (if 0 < total_income then total_charges / total_income else 1)"

definition critere_endettement :: "real \<Rightarrow> real \<Rightarrow> tally \<Rightarrow> tally" where
  "critere_endettement total_charges total_income t =
     (let ratio = debt_ratio total_charges total_income
      in if ratio \<le> 0.33
         then passes ''endettement''
                (check_mark @ '' Taux d'' @ apostrophe @ ''endettement : '' @ fmt_pct1 ratio) 30 t
         else fails ''endettement''
                (cross_mark @ '' Taux d'' @ apostrophe @ ''endettement trop '' @ e_acute @
                 ''lev'' @ e_acute @ '' : '' @ fmt_pct1 ratio)
                rec_endettement t)"

definition critere_reste_vivre :: "real \<Rightarrow> real \<Rightarrow> int \<Rightarrow> tally \<Rightarrow> tally" where
  "critere_reste_vivre total_income total_charges min_remaining t =
     (let remaining = total_income - total_charges
      in if of_int min_remaining \<le> remaining
         then passes ''reste_vivre''
                (check_mark @ '' Reste '' @ a_grave @ '' vivre : '' @ fmt_0f remaining @ euro) 10 t
         else fails ''reste_vivre''
                (cross_mark @ '' Reste '' @ a_grave @ '' vivre insuffisant : '' @
                 fmt_0f remaining @ euro)
                (rec_reste_vivre min_remaining) t)"

definition critere_age :: "int \<Rightarrow> tally \<Rightarrow> tally" where
  "critere_age loan_end_age t =
     (if loan_end_age \<le> 64
      then passes ''age''
             (check_mark @ '' Fin de cr'' @ e_acute @ ''dit '' @ a_grave @ '' '' @
              str_int loan_end_age @ '' ans'') 10 t
      else fails ''age''
             (cross_mark @ '' Fin de cr'' @ e_acute @ ''dit '' @ a_grave @ '' '' @
              str_int loan_end_age @ '' ans (limite 64 ans)'')
             rec_age t)"

definition final_status :: "int \<Rightarrow> string" where
  "final_status sc =
     (if 80 \<le> sc then ''favorable'' else if 50 \<le> sc then ''moyen'' else ''difficile'')"

subsection \<open>evaluate_application\<close>

text \<open>
  The function reads two things besides its argument: the module-level rate storage, and
  \<open>uuid.uuid4()\<close>, a random draw from the operating system. Both are parameters of
  the model: \<open>st\<close> is the storage at the time of the call, \<open>fresh_id\<close> the text of the
  identifier drawn by this call.
\<close>

definition evaluate_application ::
  "taux_storage \<Rightarrow> string \<Rightarrow> loan_application \<Rightarrow> py_error + scoring_result" where
  "evaluate_application st fresh_id application =
     (let notary_fees =
            calculate_notary_fees (property_price (project application))
              (property_type (project application));
          budget = property_price (project application) + notary_fees;
          loan_amount = budget - personal_contribution (project application);
          total_income =
            calculate_total_eligible_income (household application) (financial application)
      in case get_current_interest_rate st (loan_duration (project application)) of
           Inl e \<Rightarrow> Inl e
         | Inr current_rate \<Rightarrow>
      (case calculate_monthly_payment st loan_amount (loan_duration (project application))
              (Some current_rate) of
           Inl e \<Rightarrow> Inl e
         | Inr payment \<Rightarrow>
      (case calculate_current_charges (housing application) (financial application) of
           Inl e \<Rightarrow> Inl e
         | Inr current_charges \<Rightarrow>
      (let household_size =
             borrowers_count (household application) + children (household application);
           min_remaining = household_size * 750;
           t0 = \<lparr>criteria = [], score = 0, recs = []\<rparr>;
           t1 = critere_apport (personal_contribution (project application)) budget t0;
           main_income =
             calculate_eligible_income (employment (main_borrower (household application)));
           t2 = critere_revenus main_income total_income t1;
           total_charges = payment + current_charges;
           t3 = critere_endettement total_charges total_income t2;
           t4 = critere_reste_vivre total_income total_charges min_remaining t3;
           loan_end_age =
             age (main_borrower (household application)) + loan_duration (project application);
           t5 = critere_age loan_end_age t4;
           taux_info = get_taux_info st
       in Inr \<lparr>application_id = fresh_id,
               feasibility_score = score t5,
               result_status = final_status (score t5),
               criteria_details = criteria t5,
               recommendations = recs t5,
               monthly_payment = payment,
               total_budget = budget,
               current_interest_rate = current_rate,
               rate_source = (case source taux_info of None \<Rightarrow> ''seloger.com'' | Some s \<Rightarrow> s),
               rate_last_update =
                 (case date_maj taux_info of None \<Rightarrow> ''Non disponible'' | Some d \<Rightarrow> d)\<rparr>))))"

section \<open>Vocabulary of the statements\<close>

text \<open>
  What a consumer-loan entry declares as its monthly payment: the number stored under
  \<open>'monthly_payment'\<close>, with \<open>True\<close> and \<open>False\<close> counting as 1 and 0 as they
  do in a Python sum, and 0 for an entry without the key.
\<close>

definition is_number :: "py_value \<Rightarrow> bool" where
  "is_number v = (case v of PyNum x \<Rightarrow> True | PyBool b \<Rightarrow> True | _ \<Rightarrow> False)"

definition number_of :: "py_value \<Rightarrow> real" where
  "number_of v = (case v of PyNum x \<Rightarrow> x | PyBool b \<Rightarrow> (if b then 1 else 0) | _ \<Rightarrow> 0)"

definition payment_is_number :: "py_dict \<Rightarrow> bool" where
  "payment_is_number loan =
     (case loan ''monthly_payment'' of None \<Rightarrow> True | Some v \<Rightarrow> is_number v)"

definition declared_payment :: "py_dict \<Rightarrow> real" where
  "declared_payment loan =
     (case loan ''monthly_payment'' of None \<Rightarrow> 0 | Some v \<Rightarrow> number_of v)"

text \<open>A result with its identifier replaced, and the same for a call that may raise.\<close>

definition with_id :: "string \<Rightarrow> py_error + scoring_result \<Rightarrow> py_error + scoring_result" where
  "with_id u res = map_sum id (\<lambda>r. r\<lparr>application_id := u\<rparr>) res"

text \<open>
  A criterion passed when the verdict stored under its key starts with the check mark.
\<close>

definition criterion_passed :: "scoring_result \<Rightarrow> string \<Rightarrow> bool" where
  "criterion_passed r key =
     (case map_of (criteria_details r) key of
        None \<Rightarrow> False
      | Some verdict \<Rightarrow> take 3 verdict = check_mark)"

subsection \<open>Sample inputs\<close>

definition sample_storage :: taux_storage where
  "sample_storage = initial_taux_storage ''2024-01-01T00:00:00''"

definition first_id :: string where
  "first_id = ''1b4e28ba-2fa1-41d2-883f-0016d3cca427''"

definition second_id :: string where
  "second_id = ''6fa459ea-ee8a-4ca4-894e-db77e160355e''"

definition cdi_borrower :: "real \<Rightarrow> int \<Rightarrow> borrower_info" where
  "cdi_borrower income a =
     \<lparr>employment =
        \<lparr>status = Cdi, net_monthly_income = income, years_experience = 5,
         trial_period = False\<rparr>,
      age = a\<rparr>"

definition tenant :: housing_info where
  "tenant =
     \<lparr>current_status = Locataire, monthly_rent = 0, current_mortgage = 0,
      changing_main_residence = True\<rparr>"

definition no_finances :: financial_info where
  "no_finances = \<lparr>consumer_loans = [], rental_income = 0, other_income = 0\<rparr>"

text \<open>
  The worked example: price 200000, existing property, contribution 20000, 20 years,
  one permanent borrower earning 3000, no charges, no children. The example leaves the
  borrower's age open.
\<close>

definition example_application :: "int \<Rightarrow> loan_application" where
  "example_application a =
     \<lparr>project =
        \<lparr>property_price = 200000, property_type = Ancien, personal_contribution = 20000,
         loan_duration = 20\<rparr>,
      household =
        \<lparr>borrowers_count = 1, main_borrower = cdi_borrower 3000 a, co_borrower = None,
         children = 0\<rparr>,
      housing = tenant,
      financial = no_finances\<rparr>"


section \<open>Properties\<close>

subsection \<open>The rate lookup\<close>

lemma get_current_rate_value:
  "get_current_rate st d =
     Inr (case taux st of
            None \<Rightarrow> 0.035
          | Some table \<Rightarrow> (case table (str_int d) of None \<Rightarrow> 0.035 | Some r \<Rightarrow> r))"
  by (simp add: get_current_rate_def taux_lookup_def split: option.split)

lemma str_int_7: "str_int 7 = ''7''"
  by (simp add: str_int_def str_nat.simps digit_char_def)

lemma str_int_20: "str_int 20 = ''20''"
  by (simp add: str_int_def str_nat.simps digit_char_def)

lemma rate_20: "get_current_rate (initial_taux_storage now) 20 = Inr 0.0316"
  by (simp add: get_current_rate_value initial_taux_storage_def default_taux_def str_int_20)

lemma digit_char_inj:
  assumes "a < 10" "b < 10" "digit_char a = digit_char b"
  shows "a = b"
proof -
  have "distinct ''0123456789''"
    by simp
  moreover have "a < length ''0123456789''" "b < length ''0123456789''"
    using assms by simp_all
  ultimately show ?thesis
    using assms(3) unfolding digit_char_def by (simp only: nth_eq_iff_index_eq)
qed

lemma digit_char_not_minus: "d < 10 \<Longrightarrow> digit_char d \<noteq> CHR ''-''"
proof -
  assume "d < 10"
  then have "digit_char d \<in> set ''0123456789''"
    unfolding digit_char_def by (intro nth_mem) simp
  then show ?thesis by auto
qed

lemma str_nat_not_empty: "str_nat n \<noteq> []" "[] \<noteq> str_nat n"
  by (subst str_nat.simps, simp)+

lemma hd_str_nat_not_minus: "hd (str_nat n) \<noteq> CHR ''-''"
proof (induction n rule: str_nat.induct)
  case (1 n)
  show ?case
  proof (cases "n < 10")
    case True
    then show ?thesis
      by (subst str_nat.simps) (simp add: digit_char_not_minus)
  next
    case False
    then show ?thesis
      using 1 by (subst str_nat.simps) (simp add: str_nat_not_empty)
  qed
qed

lemma str_nat_inj: "str_nat n = str_nat m \<Longrightarrow> n = m"
proof (induction n arbitrary: m rule: str_nat.induct)
  case (1 n)
  show ?case
  proof (cases "n < 10")
    case small: True
    show ?thesis
    proof (cases "m < 10")
      case True
      with small "1.prems" show ?thesis
        by (simp add: str_nat.simps [of n] str_nat.simps [of m] digit_char_inj)
    next
      case False
      with small "1.prems" show ?thesis
        by (simp add: str_nat.simps [of n] str_nat.simps [of m] str_nat_not_empty)
    qed
  next
    case big: False
    show ?thesis
    proof (cases "m < 10")
      case True
      with big "1.prems" show ?thesis
        by (simp add: str_nat.simps [of n] str_nat.simps [of m] str_nat_not_empty)
    next
      case False
      with big "1.prems" have "str_nat (n div 10) = str_nat (m div 10)"
        and "digit_char (n mod 10) = digit_char (m mod 10)"
        by (simp_all add: str_nat.simps [of n] str_nat.simps [of m])
      then have "n div 10 = m div 10" and "n mod 10 = m mod 10"
        using "1.IH" [OF big] by (simp_all add: digit_char_inj)
      then show ?thesis
        by (metis div_mult_mod_eq)
    qed
  qed
qed

lemma str_int_inj: "str_int a = str_int b \<Longrightarrow> a = b"
proof -
  assume eq: "str_int a = str_int b"
  have neg: "hd (str_int i) = CHR ''-'' \<longleftrightarrow> i < 0" for i
    by (simp add: str_int_def hd_str_nat_not_minus)
  from eq have "a < 0 \<longleftrightarrow> b < 0"
    using neg [of a] neg [of b] by simp
  with eq show ?thesis
    by (auto simp: str_int_def dest!: str_nat_inj)
qed

text \<open>
  C6. \<open>get_current_rate\<close> never raises; it returns the rate stored under the key
  \<open>str(duration)\<close> when the table has that key, and 0.035 when the table has no such
  key or the storage has no table at all. The key of a duration is the key of no other
  duration.
\<close>

theorem rate_lookup_never_raises:
  "(\<forall>e. get_current_rate st d \<noteq> Inl e) \<and>
   (\<forall>table r. taux st = Some table \<and> table (str_int d) = Some r \<longrightarrow>
      get_current_rate st d = Inr r) \<and>
   (\<forall>table. taux st = Some table \<and> table (str_int d) = None \<longrightarrow>
      get_current_rate st d = Inr 0.035) \<and>
   (taux st = None \<longrightarrow> get_current_rate st d = Inr 0.035) \<and>
   (\<forall>d'. str_int d' = str_int d \<longrightarrow> d' = d)"
  by (auto simp: get_current_rate_value dest: str_int_inj)

text \<open>
  C6, on the initial table: 20 years gives 0.0316, 7 years is no bucket and gives
  0.035, and a storage without a table gives 0.035.
\<close>

theorem rate_lookup_never_raises_witness:
  "taux (initial_taux_storage ''2024-01-01T00:00:00'') = Some default_taux \<and>
   default_taux (str_int 20) = Some 0.0316 \<and>
   get_current_rate (initial_taux_storage ''2024-01-01T00:00:00'') 20 = Inr 0.0316 \<and>
   default_taux (str_int 7) = None \<and>
   get_current_rate (initial_taux_storage ''2024-01-01T00:00:00'') 7 = Inr 0.035 \<and>
   taux \<lparr>date_maj = None, taux = None, source = None\<rparr> = None \<and>
   get_current_rate \<lparr>date_maj = None, taux = None, source = None\<rparr> 20 = Inr 0.035"
proof -
  have a: "taux (initial_taux_storage ''2024-01-01T00:00:00'') = Some default_taux"
    by (simp add: initial_taux_storage_def)
  have b: "default_taux (str_int 20) = Some 0.0316"
    by (simp add: default_taux_def str_int_20)
  have c: "default_taux (str_int 7) = None"
    by (simp add: default_taux_def str_int_7)
  show ?thesis
    using a b c
      rate_lookup_never_raises [of "initial_taux_storage ''2024-01-01T00:00:00''" 20]
      rate_lookup_never_raises [of "initial_taux_storage ''2024-01-01T00:00:00''" 7]
      rate_lookup_never_raises [of "\<lparr>date_maj = None, taux = None, source = None\<rparr>" 20]
    by simp
qed

subsection \<open>Eligible income\<close>



lemma cdi_borrower_income:
  "calculate_eligible_income (employment (cdi_borrower income a)) = income"
  by (simp add: calculate_eligible_income_def cdi_borrower_def)


subsection \<open>Current charges\<close>

lemma add_value_number:
  "is_number v \<Longrightarrow> add_value c v = Inr (c + number_of v)"
  by (cases v) (simp_all add: add_value_def is_number_def number_of_def)

lemma add_value_not_number:
  "\<not> is_number v \<Longrightarrow> add_value c v = Inl TypeError"
  by (cases v) (simp_all add: add_value_def is_number_def)

lemma add_loans_numbers:
  "list_all payment_is_number loans \<Longrightarrow>
   add_loans c loans = Inr (c + sum_list (map declared_payment loans))"
proof (induction loans arbitrary: c)
  case Nil
  then show ?case by simp
next
  case (Cons loan loans)
  then have "payment_is_number loan" and rest: "list_all payment_is_number loans"
    by simp_all
  then have "add_value c (dict_get loan ''monthly_payment'' (PyNum 0)) =
      Inr (c + declared_payment loan)"
  proof (cases "loan ''monthly_payment''")
    case None
    then show ?thesis
      by (simp add: dict_get_def declared_payment_def add_value_def)
  next
    case (Some v)
    with \<open>payment_is_number loan\<close> show ?thesis
      by (simp add: dict_get_def payment_is_number_def declared_payment_def add_value_number)
  qed
  then show ?case
    using Cons.IH [OF rest] by (simp add: add.assoc)
qed

lemma add_loans_not_numbers:
  "\<not> list_all payment_is_number loans \<Longrightarrow> add_loans c loans = Inl TypeError"
proof (induction loans arbitrary: c)
  case Nil
  then show ?case by simp
next
  case (Cons loan loans)
  show ?case
  proof (cases "payment_is_number loan")
    case True
    then have "add_value c (dict_get loan ''monthly_payment'' (PyNum 0)) =
        Inr (c + declared_payment loan)"
      by (cases "loan ''monthly_payment''")
        (simp_all add: dict_get_def payment_is_number_def declared_payment_def
           add_value_number, simp add: add_value_def)
    moreover from True Cons.prems have "\<not> list_all payment_is_number loans"
      by simp
    ultimately show ?thesis
      by (simp add: Cons.IH)
  next
    case False
    then obtain v where "loan ''monthly_payment'' = Some v" "\<not> is_number v"
      by (auto simp: payment_is_number_def split: option.splits)
    then show ?thesis
      by (simp add: dict_get_def add_value_not_number)
  qed
qed

lemma add_loans_skip:
  assumes "loan ''monthly_payment'' = None"
  shows "add_loans c (before @ loan # after) = add_loans c (before @ after)"
proof (induction before arbitrary: c)
  case Nil
  show ?case using assms by (simp add: dict_get_def add_value_def)
next
  case (Cons l ls)
  show ?case by (simp add: Cons.IH split: sum.split)
qed

lemma current_charges_value:
  assumes "list_all payment_is_number (consumer_loans fin)"
  shows "calculate_current_charges hs fin =
     Inr ((if current_status hs = Proprietaire \<and> changing_main_residence hs
           then current_mortgage hs else 0) +
          sum_list (map declared_payment (consumer_loans fin)))"
  using assms
  by (cases "current_status hs")
    (simp_all add: calculate_current_charges_def Let_def add_loans_numbers)

lemma charges_ignore_rent:
  "calculate_current_charges (hs\<lparr>monthly_rent := rent\<rparr>) fin = calculate_current_charges hs fin"
  by (simp add: calculate_current_charges_def)

lemma no_charges: "calculate_current_charges tenant no_finances = Inr 0"
  by (simp add: calculate_current_charges_def tenant_def no_finances_def)



text \<open>
  C10. A consumer-loan entry without the key \<open>'monthly_payment'\<close> can be taken out
  of the list, wherever it stands, without changing what \<open>calculate_current_charges\<close>
  returns or whether it raises: the entry adds 0 and never causes an error.
\<close>

theorem missing_payment_key_adds_nothing:
  assumes "loan ''monthly_payment'' = None"
  shows "calculate_current_charges hs (fin\<lparr>consumer_loans := before @ loan # after\<rparr>) =
         calculate_current_charges hs (fin\<lparr>consumer_loans := before @ after\<rparr>)"
  using assms by (simp add: calculate_current_charges_def Let_def add_loans_skip)

text \<open>
  C10, at a concrete list: an entry with only a label between payments of 150 and 60
  leaves the total at 210.
\<close>

theorem missing_payment_key_adds_nothing_witness:
  "[''label'' \<mapsto> PyStr ''auto''] ''monthly_payment'' = None \<and>
   calculate_current_charges tenant
     (no_finances\<lparr>consumer_loans :=
        [[''monthly_payment'' \<mapsto> PyNum 150]] @ [''label'' \<mapsto> PyStr ''auto''] #
        [[''monthly_payment'' \<mapsto> PyNum 60]]\<rparr>) = Inr 210"
proof -
  have k: "[''label'' \<mapsto> PyStr ''auto''] ''monthly_payment'' = None"
    by simp
  have "calculate_current_charges tenant
     (no_finances\<lparr>consumer_loans :=
        [[''monthly_payment'' \<mapsto> PyNum 150]] @ [[''monthly_payment'' \<mapsto> PyNum 60]]\<rparr>) = Inr 210"
    by (simp add: calculate_current_charges_def tenant_def dict_get_def add_value_def)
  with k missing_payment_key_adds_nothing [where loan = "[''label'' \<mapsto> PyStr ''auto'']"
      and hs = tenant and fin = no_finances
      and before = "[[''monthly_payment'' \<mapsto> PyNum 150]]"
      and after = "[[''monthly_payment'' \<mapsto> PyNum 60]]"]
  show ?thesis by simp
qed

subsection \<open>The monthly payment\<close>

lemma power_gt_one:
  fixes x :: real
  assumes "0 < x" "0 < n"
  shows "1 < (1 + x) ^ n"
  using assms by (simp add: one_less_power)

lemma calculate_monthly_payment_pos_rate:
  assumes "0 < rate" "0 < d"
  shows "calculate_monthly_payment st amount d (Some rate) =
           Inr (amount * (rate / 12 * (1 + rate / 12) ^ nat (d * 12)) /
                ((1 + rate / 12) ^ nat (d * 12) - 1))"
proof -
  have "1 < (1 + rate / 12) ^ nat (d * 12)"
    using assms by (intro power_gt_one) auto
  then have "(1 + rate / 12) ^ nat (d * 12) \<noteq> 1"
    by simp
  with assms show ?thesis
    by (simp add: calculate_monthly_payment_def py_pow_def py_div_def Let_def)
qed

lemma calculate_monthly_payment_zero_rate:
  assumes "d \<noteq> 0"
  shows "calculate_monthly_payment st amount d (Some 0) = Inr (amount / of_int (d * 12))"
  using assms by (simp add: calculate_monthly_payment_def py_div_def Let_def)

lemma monthly_payment_factor:
  assumes "0 \<le> cr" "0 < d"
  shows "\<exists>k. 0 < k \<and>
           (\<forall>amount. calculate_monthly_payment st amount d (Some cr) = Inr (amount * k))"
proof (cases "cr = 0")
  case True
  have "\<forall>amount. calculate_monthly_payment st amount d (Some cr) =
      Inr (amount * (1 / of_int (d * 12)))"
    using True assms by (simp add: calculate_monthly_payment_zero_rate)
  moreover have "(0::real) < 1 / of_int (d * 12)"
    using assms by simp
  ultimately show ?thesis by blast
next
  case False
  with assms have pos: "0 < cr" by simp
  define g where "g = (1 + cr / 12) ^ nat (d * 12)"
  have g: "1 < g"
    unfolding g_def using pos assms by (intro power_gt_one) auto
  have "\<forall>amount. calculate_monthly_payment st amount d (Some cr) =
      Inr (amount * (cr / 12 * g / (g - 1)))"
    using pos assms by (simp add: calculate_monthly_payment_pos_rate g_def)
  moreover have "0 < cr / 12 * g / (g - 1)"
    using pos g by simp
  ultimately show ?thesis by blast
qed


lemma square_bounds:
  fixes y :: real
  assumes "lo \<le> y" "y \<le> hi" "0 \<le> lo" "lo' \<le> lo * lo" "hi * hi \<le> hi'"
  shows "lo' \<le> y\<^sup>2 \<and> y\<^sup>2 \<le> hi'"
proof -
  have "lo * lo \<le> y * y"
    using assms by (intro mult_mono) auto
  moreover have "y * y \<le> hi * hi"
    using assms by (intro mult_mono) auto
  ultimately show ?thesis
    using assms by (simp add: power2_eq_square)
qed

lemma growth_15:
  "1.040236491 \<le> (30079 / 30000 :: real) ^ 15 \<and> (30079 / 30000 :: real) ^ 15 \<le> 1.040236492"
  by (simp add: power_divide)

lemma growth_30:
  "1.082091957 \<le> (30079 / 30000 :: real) ^ 30 \<and> (30079 / 30000 :: real) ^ 30 \<le> 1.08209196"
proof -
  have "(30079 / 30000 :: real) ^ 30 = ((30079 / 30000) ^ 15)\<^sup>2"
    by (simp only: power_mult [symmetric]) simp
  then show ?thesis
    using growth_15
      square_bounds [of "1.040236491" "(30079 / 30000) ^ 15" "1.040236492" "1.082091957" "1.08209196"]
    by simp
qed

lemma growth_60:
  "1.170923003 \<le> (30079 / 30000 :: real) ^ 60 \<and> (30079 / 30000 :: real) ^ 60 \<le> 1.17092301"
proof -
  have "(30079 / 30000 :: real) ^ 60 = ((30079 / 30000) ^ 30)\<^sup>2"
    by (simp only: power_mult [symmetric]) simp
  then show ?thesis
    using growth_30
      square_bounds [of "1.082091957" "(30079 / 30000) ^ 30" "1.08209196" "1.170923003" "1.17092301"]
    by simp
qed

lemma growth_120:
  "1.371060678 \<le> (30079 / 30000 :: real) ^ 120 \<and> (30079 / 30000 :: real) ^ 120 \<le> 1.371060696"
proof -
  have "(30079 / 30000 :: real) ^ 120 = ((30079 / 30000) ^ 60)\<^sup>2"
    by (simp only: power_mult [symmetric]) simp
  then show ?thesis
    using growth_60
      square_bounds [of "1.170923003" "(30079 / 30000) ^ 60" "1.17092301" "1.371060678" "1.371060696"]
    by simp
qed

lemma growth_240:
  "1.879807382 \<le> (30079 / 30000 :: real) ^ 240 \<and> (30079 / 30000 :: real) ^ 240 \<le> 1.879807433"
proof -
  have "(30079 / 30000 :: real) ^ 240 = ((30079 / 30000) ^ 120)\<^sup>2"
    by (simp only: power_mult [symmetric]) simp
  then show ?thesis
    using growth_120
      square_bounds [of "1.371060678" "(30079 / 30000) ^ 120" "1.371060696" "1.879807382" "1.879807433"]
    by simp
qed

lemma example_payment:
  "\<exists>p. calculate_monthly_payment st 196000 20 (Some 0.0316) = Inr p \<and>
       1102.77 \<le> p \<and> p \<le> 1102.78"
proof -
  define g :: real where "g = (30079 / 30000) ^ 240"
  have g: "1.879807382 \<le> g" "g \<le> 1.879807433"
    using growth_240 by (simp_all add: g_def)
  have base: "(1::real) + 0.0316 / 12 = 30079 / 30000"
    by simp
  have n: "nat (20 * 12) = 240"
    by simp
  have "calculate_monthly_payment st 196000 20 (Some 0.0316) =
      Inr (196000 * (0.0316 / 12 * (1 + 0.0316 / 12) ^ nat (20 * 12)) /
           ((1 + 0.0316 / 12) ^ nat (20 * 12) - 1))"
    by (rule calculate_monthly_payment_pos_rate) simp_all
  then have eq: "calculate_monthly_payment st 196000 20 (Some 0.0316) =
      Inr (196000 * (0.0316 / 12 * g) / (g - 1))"
    unfolding base n g_def .
  have "1102.77 \<le> 196000 * (0.0316 / 12 * g) / (g - 1)"
    using g by (simp add: field_simps)
  moreover have "196000 * (0.0316 / 12 * g) / (g - 1) \<le> 1102.78"
    using g by (simp add: field_simps)
  ultimately show ?thesis
    using eq by blast
qed

subsection \<open>The criteria\<close>

lemma score_passes: "score (passes k v w t) = score t + w"
  and recs_passes: "recs (passes k v w t) = recs t"
  and criteria_passes: "criteria (passes k v w t) = criteria t @ [(k, v)]"
  by (simp_all add: passes_def)

lemma score_fails: "score (fails k v rc t) = score t"
  and recs_fails: "recs (fails k v rc t) = recs t @ [rc]"
  and criteria_fails: "criteria (fails k v rc t) = criteria t @ [(k, v)]"
  by (simp_all add: fails_def)

lemmas tally_simps =
  score_passes recs_passes criteria_passes score_fails recs_fails criteria_fails

lemma score_critere_apport:
  "score (critere_apport k b t) = score t + (if b * 0.10 \<le> k then 30 else 0)"
  by (simp add: critere_apport_def Let_def tally_simps)

lemma recs_critere_apport:
  "recs (critere_apport k b t) =
     recs t @ (if b * 0.10 \<le> k then [] else [rec_apport (b * 0.10)])"
  by (simp add: critere_apport_def Let_def tally_simps)

lemma score_critere_revenus:
  "score (critere_revenus m ti t) = score t + (if 0 < m then 20 else 0)"
  by (simp add: critere_revenus_def tally_simps)

lemma recs_critere_revenus:
  "recs (critere_revenus m ti t) = recs t @ (if 0 < m then [] else [rec_revenus])"
  by (simp add: critere_revenus_def tally_simps)

lemma score_critere_endettement:
  "score (critere_endettement tc ti t) =
     score t + (if debt_ratio tc ti \<le> 0.33 then 30 else 0)"
  by (simp add: critere_endettement_def Let_def tally_simps)

lemma recs_critere_endettement:
  "recs (critere_endettement tc ti t) =
     recs t @ (if debt_ratio tc ti \<le> 0.33 then [] else [rec_endettement])"
  by (simp add: critere_endettement_def Let_def tally_simps)

lemma score_critere_reste_vivre:
  "score (critere_reste_vivre ti tc m t) =
     score t + (if of_int m \<le> ti - tc then 10 else 0)"
  by (simp add: critere_reste_vivre_def Let_def tally_simps)

lemma recs_critere_reste_vivre:
  "recs (critere_reste_vivre ti tc m t) =
     recs t @ (if of_int m \<le> ti - tc then [] else [rec_reste_vivre m])"
  by (simp add: critere_reste_vivre_def Let_def tally_simps)

lemma score_critere_age:
  "score (critere_age a t) = score t + (if a \<le> 64 then 10 else 0)"
  by (simp add: critere_age_def tally_simps)

lemma recs_critere_age:
  "recs (critere_age a t) = recs t @ (if a \<le> 64 then [] else [rec_age])"
  by (simp add: critere_age_def tally_simps)

lemmas critere_simps =
  score_critere_apport recs_critere_apport score_critere_revenus recs_critere_revenus
  score_critere_endettement recs_critere_endettement score_critere_reste_vivre
  recs_critere_reste_vivre score_critere_age recs_critere_age

lemma criteria_critere_apport:
  "criteria (critere_apport k b t) =
     criteria t @
     [(''apport'',
       if b * 0.10 \<le> k then check_mark @ '' Apport suffisant''
       else cross_mark @ '' Apport insuffisant ('' @ fmt_0f (b * 0.10) @ euro @ '' minimum)'')]"
  by (simp add: critere_apport_def Let_def tally_simps)

lemma criteria_critere_revenus:
  "criteria (critere_revenus m ti t) =
     criteria t @
     [(''revenus'',
       if 0 < m
       then check_mark @ '' Revenus '' @ e_acute @ ''ligibles : '' @ fmt_comma_0f ti @ euro @
            ''/mois''
       else cross_mark @ '' Revenus non '' @ e_acute @ ''ligibles'')]"
  by (simp add: critere_revenus_def tally_simps)

lemma criteria_critere_endettement:
  "criteria (critere_endettement tc ti t) =
     criteria t @
     [(''endettement'',
       if debt_ratio tc ti \<le> 0.33
       then check_mark @ '' Taux d'' @ apostrophe @ ''endettement : '' @
            fmt_pct1 (debt_ratio tc ti)
       else cross_mark @ '' Taux d'' @ apostrophe @ ''endettement trop '' @ e_acute @
            ''lev'' @ e_acute @ '' : '' @ fmt_pct1 (debt_ratio tc ti))]"
  by (simp add: critere_endettement_def Let_def tally_simps)

lemma criteria_critere_reste_vivre:
  "criteria (critere_reste_vivre ti tc m t) =
     criteria t @
     [(''reste_vivre'',
       if of_int m \<le> ti - tc
       then check_mark @ '' Reste '' @ a_grave @ '' vivre : '' @ fmt_0f (ti - tc) @ euro
       else cross_mark @ '' Reste '' @ a_grave @ '' vivre insuffisant : '' @
            fmt_0f (ti - tc) @ euro)]"
  by (simp add: critere_reste_vivre_def Let_def tally_simps)

lemma criteria_critere_age:
  "criteria (critere_age a t) =
     criteria t @
     [(''age'',
       if a \<le> 64
       then check_mark @ '' Fin de cr'' @ e_acute @ ''dit '' @ a_grave @ '' '' @ str_int a @
            '' ans''
       else cross_mark @ '' Fin de cr'' @ e_acute @ ''dit '' @ a_grave @ '' '' @ str_int a @
            '' ans (limite 64 ans)'')]"
  by (simp add: critere_age_def tally_simps)

lemmas criteria_simps =
  criteria_critere_apport criteria_critere_revenus criteria_critere_endettement
  criteria_critere_reste_vivre criteria_critere_age



subsection \<open>The structure of an evaluation\<close>

lemma evaluate_application_InrD:
  assumes "evaluate_application st u app = Inr r"
  shows "\<exists>cr c.
     get_current_rate st (loan_duration (project app)) = Inr cr \<and>
     calculate_monthly_payment st
       (property_price (project app) +
        calculate_notary_fees (property_price (project app)) (property_type (project app)) -
        personal_contribution (project app))
       (loan_duration (project app)) (Some cr) = Inr (monthly_payment r) \<and>
     calculate_current_charges (housing app) (financial app) = Inr c \<and>
     current_interest_rate r = cr \<and>
     application_id r = u \<and>
     total_budget r =
       property_price (project app) +
       calculate_notary_fees (property_price (project app)) (property_type (project app)) \<and>
     feasibility_score r =
       (if total_budget r * 0.10 \<le> personal_contribution (project app) then 30 else 0) +
       (if 0 < calculate_eligible_income (employment (main_borrower (household app)))
        then 20 else 0) +
       (if debt_ratio (monthly_payment r + c)
             (calculate_total_eligible_income (household app) (financial app)) \<le> 0.33
        then 30 else 0) +
       (if of_int ((borrowers_count (household app) + children (household app)) * 750)
             \<le> calculate_total_eligible_income (household app) (financial app) -
                (monthly_payment r + c)
        then 10 else 0) +
       (if age (main_borrower (household app)) + loan_duration (project app) \<le> 64
        then 10 else 0) \<and>
     recommendations r =
       (if total_budget r * 0.10 \<le> personal_contribution (project app) then []
        else [rec_apport (total_budget r * 0.10)]) @
       (if 0 < calculate_eligible_income (employment (main_borrower (household app)))
        then [] else [rec_revenus]) @
       (if debt_ratio (monthly_payment r + c)
             (calculate_total_eligible_income (household app) (financial app)) \<le> 0.33
        then [] else [rec_endettement]) @
       (if of_int ((borrowers_count (household app) + children (household app)) * 750)
             \<le> calculate_total_eligible_income (household app) (financial app) -
                (monthly_payment r + c)
        then []
        else [rec_reste_vivre
                ((borrowers_count (household app) + children (household app)) * 750)]) @
       (if age (main_borrower (household app)) + loan_duration (project app) \<le> 64
        then [] else [rec_age]) \<and>
     result_status r = final_status (feasibility_score r)"
  using assms
  unfolding evaluate_application_def get_current_interest_rate_def get_taux_info_def Let_def
  by (auto split: sum.splits simp: critere_simps)

lemma evaluate_application_tally:
  assumes "evaluate_application st u app = Inr r"
    and "calculate_current_charges (housing app) (financial app) = Inr c"
  shows "\<exists>t.
     t = critere_age (age (main_borrower (household app)) + loan_duration (project app))
          (critere_reste_vivre
            (calculate_total_eligible_income (household app) (financial app))
            (monthly_payment r + c)
            ((borrowers_count (household app) + children (household app)) * 750)
            (critere_endettement (monthly_payment r + c)
              (calculate_total_eligible_income (household app) (financial app))
              (critere_revenus
                (calculate_eligible_income (employment (main_borrower (household app))))
                (calculate_total_eligible_income (household app) (financial app))
                (critere_apport (personal_contribution (project app)) (total_budget r)
                  \<lparr>criteria = [], score = 0, recs = []\<rparr>)))) \<and>
     feasibility_score r = score t \<and> criteria_details r = criteria t \<and>
     recommendations r = recs t \<and> result_status r = final_status (score t)"
  using assms
  unfolding evaluate_application_def get_current_interest_rate_def get_taux_info_def Let_def
  by (auto split: sum.splits)

lemma evaluate_application_verdicts:
  assumes "evaluate_application st u app = Inr r"
    and "calculate_current_charges (housing app) (financial app) = Inr c"
  shows "map fst (criteria_details r) =
           [''apport'', ''revenus'', ''endettement'', ''reste_vivre'', ''age'']"
    and "criterion_passed r ''apport'' \<longleftrightarrow>
           total_budget r * 0.10 \<le> personal_contribution (project app)"
    and "criterion_passed r ''revenus'' \<longleftrightarrow>
           0 < calculate_eligible_income (employment (main_borrower (household app)))"
    and "criterion_passed r ''endettement'' \<longleftrightarrow>
           debt_ratio (monthly_payment r + c)
             (calculate_total_eligible_income (household app) (financial app)) \<le> 0.33"
    and "criterion_passed r ''reste_vivre'' \<longleftrightarrow>
           of_int ((borrowers_count (household app) + children (household app)) * 750)
             \<le> calculate_total_eligible_income (household app) (financial app) -
                (monthly_payment r + c)"
    and "criterion_passed r ''age'' \<longleftrightarrow>
           age (main_borrower (household app)) + loan_duration (project app) \<le> 64"
proof -
  from evaluate_application_tally [OF assms]
  have cd: "criteria_details r =
     criteria
      (critere_age (age (main_borrower (household app)) + loan_duration (project app))
          (critere_reste_vivre
            (calculate_total_eligible_income (household app) (financial app))
            (monthly_payment r + c)
            ((borrowers_count (household app) + children (household app)) * 750)
            (critere_endettement (monthly_payment r + c)
              (calculate_total_eligible_income (household app) (financial app))
              (critere_revenus
                (calculate_eligible_income (employment (main_borrower (household app))))
                (calculate_total_eligible_income (household app) (financial app))
                (critere_apport (personal_contribution (project app)) (total_budget r)
                  \<lparr>criteria = [], score = 0, recs = []\<rparr>)))))"
    by simp
  show "map fst (criteria_details r) =
           [''apport'', ''revenus'', ''endettement'', ''reste_vivre'', ''age'']"
    unfolding cd criteria_simps by simp
  show "criterion_passed r ''apport'' \<longleftrightarrow>
           total_budget r * 0.10 \<le> personal_contribution (project app)"
    unfolding criterion_passed_def cd criteria_simps by (simp add: check_mark_def cross_mark_def)
  show "criterion_passed r ''revenus'' \<longleftrightarrow>
           0 < calculate_eligible_income (employment (main_borrower (household app)))"
    unfolding criterion_passed_def cd criteria_simps by (simp add: check_mark_def cross_mark_def)
  show "criterion_passed r ''endettement'' \<longleftrightarrow>
           debt_ratio (monthly_payment r + c)
             (calculate_total_eligible_income (household app) (financial app)) \<le> 0.33"
    unfolding criterion_passed_def cd criteria_simps by (simp add: check_mark_def cross_mark_def)
  show "criterion_passed r ''reste_vivre'' \<longleftrightarrow>
           of_int ((borrowers_count (household app) + children (household app)) * 750)
             \<le> calculate_total_eligible_income (household app) (financial app) -
                (monthly_payment r + c)"
    unfolding criterion_passed_def cd criteria_simps by (simp add: check_mark_def cross_mark_def)
  show "criterion_passed r ''age'' \<longleftrightarrow>
           age (main_borrower (household app)) + loan_duration (project app) \<le> 64"
    unfolding criterion_passed_def cd criteria_simps by (simp add: check_mark_def cross_mark_def)
qed

lemma score_by_verdicts:
  assumes "evaluate_application st u app = Inr r"
  shows "feasibility_score r =
     (if criterion_passed r ''apport'' then 30 else 0) +
     (if criterion_passed r ''revenus'' then 20 else 0) +
     (if criterion_passed r ''endettement'' then 30 else 0) +
     (if criterion_passed r ''reste_vivre'' then 10 else 0) +
     (if criterion_passed r ''age'' then 10 else 0)"
proof -
  from evaluate_application_InrD [OF assms] obtain c
    where c: "calculate_current_charges (housing app) (financial app) = Inr c"
      and sc: "feasibility_score r =
       (if total_budget r * 0.10 \<le> personal_contribution (project app) then 30 else 0) +
       (if 0 < calculate_eligible_income (employment (main_borrower (household app)))
        then 20 else 0) +
       (if debt_ratio (monthly_payment r + c)
             (calculate_total_eligible_income (household app) (financial app)) \<le> 0.33
        then 30 else 0) +
       (if of_int ((borrowers_count (household app) + children (household app)) * 750)
             \<le> calculate_total_eligible_income (household app) (financial app) -
                (monthly_payment r + c)
        then 10 else 0) +
       (if age (main_borrower (household app)) + loan_duration (project app) \<le> 64
        then 10 else 0)"
    by blast
  show ?thesis
    unfolding sc evaluate_application_verdicts(2-6) [OF assms c] ..
qed

lemma evaluate_application_returns:
  assumes rate: "get_current_rate st (loan_duration (project app)) = Inr cr"
    and "0 \<le> cr" and "0 < loan_duration (project app)"
    and loans: "list_all payment_is_number (consumer_loans (financial app))"
  shows "\<exists>r. evaluate_application st u app = Inr r"
proof -
  from monthly_payment_factor [OF assms(2,3)] obtain k
    where "\<forall>amount. calculate_monthly_payment st amount (loan_duration (project app)) (Some cr)
             = Inr (amount * k)"
    by blast
  then show ?thesis
    unfolding evaluate_application_def get_current_interest_rate_def Let_def
    by (simp add: rate current_charges_value [OF loans])
qed

lemma evaluate_application_with_id:
  "with_id u' (evaluate_application st u app) = evaluate_application st u' app"
  unfolding evaluate_application_def with_id_def Let_def
  by (simp split: sum.split)



lemma example_result:
  "\<exists>r. evaluate_application (initial_taux_storage now) u (example_application a) = Inr r \<and>
     total_budget r = 216000 \<and>
     current_interest_rate r = 0.0316 \<and>
     calculate_monthly_payment (initial_taux_storage now) 196000 20 (Some 0.0316) =
       Inr (monthly_payment r) \<and>
     1102.77 \<le> monthly_payment r \<and> monthly_payment r \<le> 1102.78 \<and>
     \<not> criterion_passed r ''apport'' \<and>
     criterion_passed r ''revenus'' \<and>
     \<not> criterion_passed r ''endettement'' \<and>
     criterion_passed r ''reste_vivre'' \<and>
     (criterion_passed r ''age'' \<longleftrightarrow> a \<le> 44) \<and>
     recommendations r =
       rec_apport 21600 # rec_endettement # (if a \<le> 44 then [] else [rec_age]) \<and>
     feasibility_score r = (if a \<le> 44 then 40 else 30)"
proof -
  let ?st = "initial_taux_storage now"
  let ?app = "example_application a"
  have d: "loan_duration (project ?app) = 20"
    by (simp add: example_application_def)
  have "\<exists>r. evaluate_application ?st u ?app = Inr r"
    by (rule evaluate_application_returns [where cr = "0.0316"])
      (simp_all add: d rate_20, simp add: example_application_def no_finances_def)
  then obtain r where ev: "evaluate_application ?st u ?app = Inr r" ..
  have c: "calculate_current_charges (housing ?app) (financial ?app) = Inr 0"
    by (simp add: example_application_def no_charges)
  have inc: "calculate_total_eligible_income (household ?app) (financial ?app) = 3000"
    by (simp add: calculate_total_eligible_income_def example_application_def
        cdi_borrower_income no_finances_def)
  have main: "calculate_eligible_income (employment (main_borrower (household ?app))) = 3000"
    by (simp add: example_application_def cdi_borrower_income)
  have fees: "calculate_notary_fees 200000 Ancien = 16000"
    by (simp add: calculate_notary_fees_def)
  have proj: "property_price (project ?app) = 200000"
    "property_type (project ?app) = Ancien"
    "personal_contribution (project ?app) = 20000"
    "borrowers_count (household ?app) = 1" "children (household ?app) = 0"
    "age (main_borrower (household ?app)) = a"
    by (simp_all add: example_application_def cdi_borrower_def)
  from evaluate_application_InrD [OF ev] obtain cr c'
    where rate: "get_current_rate ?st (loan_duration (project ?app)) = Inr cr"
      and pay: "calculate_monthly_payment ?st
         (property_price (project ?app) +
          calculate_notary_fees (property_price (project ?app)) (property_type (project ?app)) -
          personal_contribution (project ?app))
         (loan_duration (project ?app)) (Some cr) = Inr (monthly_payment r)"
      and c': "calculate_current_charges (housing ?app) (financial ?app) = Inr c'"
      and cur: "current_interest_rate r = cr"
      and budget: "total_budget r =
         property_price (project ?app) +
         calculate_notary_fees (property_price (project ?app)) (property_type (project ?app))"
      and recs: "recommendations r =
       (if total_budget r * 0.10 \<le> personal_contribution (project ?app) then []
        else [rec_apport (total_budget r * 0.10)]) @
       (if 0 < calculate_eligible_income (employment (main_borrower (household ?app)))
        then [] else [rec_revenus]) @
       (if debt_ratio (monthly_payment r + c')
             (calculate_total_eligible_income (household ?app) (financial ?app)) \<le> 0.33
        then [] else [rec_endettement]) @
       (if of_int ((borrowers_count (household ?app) + children (household ?app)) * 750)
             \<le> calculate_total_eligible_income (household ?app) (financial ?app) -
                (monthly_payment r + c')
        then []
        else [rec_reste_vivre
                ((borrowers_count (household ?app) + children (household ?app)) * 750)]) @
       (if age (main_borrower (household ?app)) + loan_duration (project ?app) \<le> 64
        then [] else [rec_age])"
    by blast
  have cr: "cr = 0.0316"
    using rate by (simp add: d rate_20)
  have c0: "c' = 0"
    using c c' by simp
  have b: "total_budget r = 216000"
    by (simp add: budget proj fees)
  have pay': "calculate_monthly_payment ?st 196000 20 (Some 0.0316) = Inr (monthly_payment r)"
    using pay by (simp add: proj fees d cr)
  with example_payment [of ?st]
  have bounds: "1102.77 \<le> monthly_payment r" "monthly_payment r \<le> 1102.78"
    by auto
  have ratio: "\<not> debt_ratio (monthly_payment r + 0) 3000 \<le> 0.33"
    using bounds by (simp add: debt_ratio_def)
  have rest: "of_int ((1 + 0) * 750) \<le> (3000::real) - (monthly_payment r + 0)"
    using bounds by simp
  note v = evaluate_application_verdicts [OF ev c]
  have v1: "\<not> criterion_passed r ''apport''"
    by (simp add: v(2) b proj)
  have v2: "criterion_passed r ''revenus''"
    by (simp add: v(3) main)
  have v3: "\<not> criterion_passed r ''endettement''"
    using ratio by (simp add: v(4) inc)
  have v4: "criterion_passed r ''reste_vivre''"
    using rest by (simp add: v(5) inc proj)
  have v5: "criterion_passed r ''age'' \<longleftrightarrow> a \<le> 44"
    by (auto simp add: v(6) proj d)
  have r: "recommendations r =
       rec_apport 21600 # rec_endettement # (if a \<le> 44 then [] else [rec_age])"
    unfolding recs c0 inc main proj d b using ratio rest by auto
  have sc: "feasibility_score r = (if a \<le> 44 then 40 else 30)"
    unfolding score_by_verdicts [OF ev] using v1 v2 v3 v4 v5 by simp
  show ?thesis
    using ev b cur cr pay' bounds v1 v2 v3 v4 v5 r sc by blast
qed


subsection \<open>The outcome of an evaluation\<close>




text \<open>
  C3, as the code has it. Two calls of \<open>evaluate_application\<close> on the same
  application and the same rate storage raise the same error or return results that
  agree on every field except \<open>application_id\<close>, which is the identifier each call
  drew.
\<close>

theorem result_fixed_up_to_identifier:
  "(\<forall>e. evaluate_application st u app = Inl e \<longleftrightarrow> evaluate_application st u' app = Inl e) \<and>
   (\<forall>r r'. evaluate_application st u app = Inr r \<and> evaluate_application st u' app = Inr r'
      \<longrightarrow> application_id r = u \<and> application_id r' = u' \<and>
          feasibility_score r = feasibility_score r' \<and>
          result_status r = result_status r' \<and>
          criteria_details r = criteria_details r' \<and>
          recommendations r = recommendations r' \<and>
          monthly_payment r = monthly_payment r' \<and>
          total_budget r = total_budget r' \<and>
          current_interest_rate r = current_interest_rate r' \<and>
          rate_source r = rate_source r' \<and>
          rate_last_update r = rate_last_update r')"
proof -
  have eq: "evaluate_application st u' app = with_id u' (evaluate_application st u app)"
    by (simp add: evaluate_application_with_id)
  have id: "\<And>v r. evaluate_application st v app = Inr r \<Longrightarrow> application_id r = v"
    by (drule evaluate_application_InrD) auto
  show ?thesis
    unfolding eq using id [of u]
    by (cases "evaluate_application st u app") (auto simp: with_id_def)
qed

text \<open>
  C3 as amended, on the worked example: the two calls return results with the two
  identifiers and equal in every other field.
\<close>

theorem result_fixed_up_to_identifier_witness:
  "\<exists>r r'.
     evaluate_application sample_storage first_id (example_application 35) = Inr r \<and>
     evaluate_application sample_storage second_id (example_application 35) = Inr r' \<and>
     application_id r = first_id \<and> application_id r' = second_id \<and>
     feasibility_score r = feasibility_score r' \<and>
     result_status r = result_status r' \<and>
     criteria_details r = criteria_details r' \<and>
     recommendations r = recommendations r' \<and>
     monthly_payment r = monthly_payment r' \<and>
     total_budget r = total_budget r' \<and>
     current_interest_rate r = current_interest_rate r' \<and>
     rate_source r = rate_source r' \<and>
     rate_last_update r = rate_last_update r'"
proof -
  from example_result [of "''2024-01-01T00:00:00''" first_id 35] obtain r
    where ev: "evaluate_application sample_storage first_id (example_application 35) = Inr r"
    unfolding sample_storage_def by blast
  from example_result [of "''2024-01-01T00:00:00''" second_id 35] obtain r'
    where ev': "evaluate_application sample_storage second_id (example_application 35) = Inr r'"
    unfolding sample_storage_def by blast
  from result_fixed_up_to_identifier
    [of sample_storage first_id "example_application 35" second_id] ev ev'
  show ?thesis
    by (intro exI [of _ r] exI [of _ r']) blast
qed

text \<open>
  C3, as stated, fails: two calls on the same application and the same rate storage
  that draw different identifiers return different results.
\<close>

theorem identifier_counterexample:
  "evaluate_application sample_storage first_id (example_application 35) \<noteq>
   evaluate_application sample_storage second_id (example_application 35)"
proof
  assume eq: "evaluate_application sample_storage first_id (example_application 35) =
    evaluate_application sample_storage second_id (example_application 35)"
  from example_result [of "''2024-01-01T00:00:00''" first_id 35] obtain r
    where ev: "evaluate_application sample_storage first_id (example_application 35) = Inr r"
    unfolding sample_storage_def by blast
  from evaluate_application_InrD [OF ev] have "application_id r = first_id"
    by blast
  moreover from evaluate_application_InrD [OF ev [unfolded eq]]
  have "application_id r = second_id"
    by blast
  ultimately show False
    by (simp add: first_id_def second_id_def)
qed





text \<open>
  C8, as the code computes it. For price 200000, existing property, contribution 20000,
  20 years, one permanent borrower (not in a trial period) earning 3000, no charges and
  no children, at any age: the notary fee is 16000, the total budget 216000, the loan
  amount 196000, the rate 0.0316; the monthly payment is 1102.78 to the cent, so within
  1 of 1103; the contribution 20000 is below 21600, the contribution criterion fails and
  its recommendation comes first; the score is 40 up to the age of 44 and 30 above, so
  below 100.
\<close>

theorem worked_example:
  "\<exists>r. evaluate_application (initial_taux_storage now) u (example_application a) = Inr r \<and>
     calculate_notary_fees 200000 Ancien = 16000 \<and>
     total_budget r = 216000 \<and>
     total_budget r - personal_contribution (project (example_application a)) = 196000 \<and>
     current_interest_rate r = 0.0316 \<and>
     calculate_monthly_payment (initial_taux_storage now) 196000 20 (Some 0.0316) =
       Inr (monthly_payment r) \<and>
     \<bar>monthly_payment r - 1103\<bar> \<le> 1 \<and>
     \<bar>monthly_payment r - 1102.775\<bar> \<le> 0.005 \<and>
     personal_contribution (project (example_application a)) < 0.10 * total_budget r \<and>
     0.10 * total_budget r = 21600 \<and>
     \<not> criterion_passed r ''apport'' \<and>
     hd (recommendations r) = rec_apport 21600 \<and>
     feasibility_score r = (if a \<le> 44 then 40 else 30) \<and>
     feasibility_score r < 100"
proof -
  from example_result [of now u a] obtain r
    where ev: "evaluate_application (initial_taux_storage now) u (example_application a) = Inr r"
      and b: "total_budget r = 216000" and cur: "current_interest_rate r = 0.0316"
      and pay: "calculate_monthly_payment (initial_taux_storage now) 196000 20 (Some 0.0316) =
             Inr (monthly_payment r)"
      and lo: "1102.77 \<le> monthly_payment r" and hi: "monthly_payment r \<le> 1102.78"
      and v: "\<not> criterion_passed r ''apport''"
      and recs: "recommendations r =
             rec_apport 21600 # rec_endettement # (if a \<le> 44 then [] else [rec_age])"
      and sc: "feasibility_score r = (if a \<le> 44 then 40 else 30)"
    by blast
  have fees: "calculate_notary_fees 200000 Ancien = 16000"
    by (simp add: calculate_notary_fees_def)
  have k: "personal_contribution (project (example_application a)) = 20000"
    by (simp add: example_application_def)
  have near: "\<bar>monthly_payment r - 1103\<bar> \<le> 1"
    unfolding abs_le_iff using lo hi by simp
  have nearer: "\<bar>monthly_payment r - 1102.775\<bar> \<le> 0.005"
    unfolding abs_le_iff using lo hi by simp
  have "total_budget r - personal_contribution (project (example_application a)) = 196000"
    "personal_contribution (project (example_application a)) < 0.10 * total_budget r"
    "0.10 * total_budget r = 21600"
    by (simp_all add: b k)
  moreover have "hd (recommendations r) = rec_apport 21600"
    by (simp add: recs)
  moreover have "feasibility_score r < 100"
    by (simp add: sc)
  ultimately show ?thesis
    using ev fees b cur pay near nearer v sc by blast
qed

text \<open>
  C8, as stated, fails: on the worked example (borrower aged 35) the monthly payment
  in the result is not within 1 of 1121.
\<close>

theorem payment_1121_counterexample:
  "\<exists>r. evaluate_application sample_storage first_id (example_application 35) = Inr r \<and>
     \<not> \<bar>monthly_payment r - 1121\<bar> \<le> 1"
proof -
  from example_result [of "''2024-01-01T00:00:00''" first_id 35] obtain r
    where "evaluate_application sample_storage first_id (example_application 35) = Inr r"
      and "monthly_payment r \<le> 1102.78"
    unfolding sample_storage_def by blast
  then show ?thesis
    by (intro exI [of _ r]) simp
qed

text \<open>
  C9. Changing \<open>housing.monthly_rent\<close> changes nothing in the outcome of
  \<open>evaluate_application\<close>: with the same identifier drawn the outcomes are equal, and
  with different identifiers they are equal once the identifier is replaced.
\<close>

theorem rent_is_never_read:
  "evaluate_application st u (app\<lparr>housing := (housing app)\<lparr>monthly_rent := rent\<rparr>\<rparr>) =
     evaluate_application st u app \<and>
   with_id u' (evaluate_application st u
       (app\<lparr>housing := (housing app)\<lparr>monthly_rent := rent\<rparr>\<rparr>)) =
     evaluate_application st u' app"
proof -
  have "evaluate_application st u (app\<lparr>housing := (housing app)\<lparr>monthly_rent := rent\<rparr>\<rparr>) =
     evaluate_application st u app"
    by (simp add: evaluate_application_def charges_ignore_rent Let_def cong: sum.case_cong)
  then show ?thesis
    by (simp add: evaluate_application_with_id)
qed

end
